theory Spec2Isabelle
  imports Main
begin

section \<open>Frames, result payloads and the shared slot\<close>

text \<open>
  The controller sends camera frames to a YOLO detection service and pairs every response
  with the frame it was computed for. Two clients do this: \<^verbatim>\<open>YoloClient\<close> in
  \<^verbatim>\<open>yolo_client.py\<close> (HTTP) and \<^verbatim>\<open>YoloGRPCClient\<close> in
  \<^verbatim>\<open>yolo_grpc_client.py\<close> (gRPC). Both keep a FIFO \<^verbatim>\<open>frame_queue\<close>, a counter
  \<^verbatim>\<open>frame_id\<close> and an optional \<^verbatim>\<open>shared_frame\<close>.

  Of a \<^verbatim>\<open>Frame\<close> the clients read one attribute, \<^verbatim>\<open>frame.image\<close>, which may be
  \<^verbatim>\<open>None\<close>. The type of images is left open.
\<close>

record 'i Frame =
  frame_image :: "'i option"

text \<open>
  The decoded response body \<^verbatim>\<open>json_results\<close>. The clients read its key
  \<^verbatim>\<open>'image_id'\<close>, which a payload may lack; the rest of the payload (the detected
  boxes) is passed on untouched. Where the key is present its value is taken to be an
  integer.
\<close>

record 'b json_results =
  image_id :: "int option"
  boxes :: 'b

text \<open>
  Modelled from the spec: \<^verbatim>\<open>SharedFrame\<close>, the latest-result slot, is declared in
  \<^verbatim>\<open>shared_frame.py\<close>, which is not among the sources. The spec gives it
  \<^verbatim>\<open>set(frame, result)\<close>, which overwrites the slot unconditionally, and \<^verbatim>\<open>get()\<close>,
  which reads the current pair or nothing if the slot was never set. The slot is kept as
  the list of the pairs written so far, newest first: its head is what the slot holds, and
  its length counts the publications.
\<close>

type_synonym ('i, 'b) SharedFrame = "('i Frame \<times> 'b json_results) list"

definition shared_frame_set ::
  "'i Frame \<Rightarrow> 'b json_results \<Rightarrow> ('i, 'b) SharedFrame \<Rightarrow> ('i, 'b) SharedFrame" where
  "shared_frame_set frame results s = (frame, results) # s"

definition shared_frame_get :: "('i, 'b) SharedFrame \<Rightarrow> ('i Frame \<times> 'b json_results) option" where
  "shared_frame_get s = (case s of [] \<Rightarrow> None | p # _ \<Rightarrow> Some p)"

section \<open>Client state, errors and replies\<close>

text \<open>
  The mutable attributes of a client. \<^verbatim>\<open>shared_frame\<close> is \<open>None\<close> when the client was
  built without a slot. The process-wide constant \<^verbatim>\<open>VISION_SERVICE_IP\<close> decides once
  and for all whether \<^verbatim>\<open>detect\<close> takes the synchronous path (\<^verbatim>\<open>detect_local\<close>, which
  queues bare frames) or the asynchronous one (which queues pairs \<^verbatim>\<open>(frame_id, frame)\<close>),
  so the element type of the queue is a parameter of the state. The remaining attributes
  (\<^verbatim>\<open>service_url\<close>, \<^verbatim>\<open>image_size\<close>, the gRPC stubs and \<^verbatim>\<open>is_async_inited\<close>)
  take no part in queueing, matching or publishing and are left out.
\<close>

record ('q, 'i, 'b) client =
  frame_queue :: "'q list"
  shared_frame :: "('i, 'b) SharedFrame option"
  frame_id :: int

type_synonym 'i envelope = "int \<times> 'i Frame"
type_synonym ('i, 'b) remote_client = "('i envelope, 'i, 'b) client"
type_synonym ('i, 'b) local_client = "('i Frame, 'i, 'b) client"

text \<open>\<^verbatim>\<open>__init__\<close>: an empty queue, the given slot, the counter at 0.\<close>

definition init_client :: "('i, 'b) SharedFrame option \<Rightarrow> ('q, 'i, 'b) client" where
  "init_client sf = \<lparr>frame_queue = [], shared_frame = sf, frame_id = 0\<rparr>"

text \<open>
  The exceptions the modelled code can raise, and how a call ends: it returns, it raises to
  its caller, or it blocks for ever (\<^verbatim>\<open>queue.Queue.get()\<close> on an empty queue).
\<close>

datatype error =
  IndexError | KeyError | RuntimeError | RpcError | JSONDecodeError
  | UnboundLocalError | AttributeError | TypeError

datatype outcome = Returned | Raised error | Blocked

text \<open>
  What the detection service and the network do with one request is an input of the
  model:
  \<^item> \<open>TransportFailure\<close>: the request fails before a response is there (connection
    refused, timeout while connecting or waiting, error status);
  \<^item> \<open>ReadFailure\<close>: a response is there, but reading its body fails (timeout or
    connection cut during the read);
  \<^item> \<open>InvalidBody\<close>: the body is read but is not JSON;
  \<^item> \<open>NotAnObject v\<close>: the body is JSON but not an object (a list, a string, a
    number, \<^verbatim>\<open>null\<close>), so it has no keys to read; where such a value is published
    unread, the slot holds it as a payload without image id;
  \<^item> \<open>Decoded json\<close>: the body decodes to an object.
\<close>

datatype 'b reply =
  TransportFailure | ReadFailure | InvalidBody | NotAnObject 'b | Decoded "'b json_results"

section \<open>The synchronous path: \<^verbatim>\<open>detect_local\<close>\<close>

text \<open>
  \<^verbatim>\<open>YoloClient.detect_local\<close> (yolo\_client.py, lines 108-148). The whole body is inside
  \<^verbatim>\<open>try ... except Exception\<close>, which logs and returns: a frame without image returns
  before the queue is touched; otherwise the frame is put on the queue, the request is
  posted and the body decoded (either may raise, after the put), the front of the queue
  is taken and published when a slot is attached, and \<^verbatim>\<open>frame_id\<close> is incremented.
  \<^verbatim>\<open>requests.post\<close> reads the body itself, so a failed read is a failed request. The
  decoded value is published unread, whether it is an object or not.
\<close>

definition detect_local_http ::
  "'i Frame \<Rightarrow> 'b reply \<Rightarrow> ('i, 'b) local_client \<Rightarrow> outcome \<times> ('i, 'b) local_client" where
  "detect_local_http frame reply c =
     (case frame_image frame of
        None \<Rightarrow> (Returned, c)
      | Some img \<Rightarrow>
          (case reply of
             TransportFailure \<Rightarrow> (Returned, c\<lparr>frame_queue := frame_queue c @ [frame]\<rparr>)
           | ReadFailure \<Rightarrow> (Returned, c\<lparr>frame_queue := frame_queue c @ [frame]\<rparr>)
           | InvalidBody \<Rightarrow> (Returned, c\<lparr>frame_queue := frame_queue c @ [frame]\<rparr>)
           | NotAnObject v \<Rightarrow>
               (case shared_frame c of
                  None \<Rightarrow>
                    (Returned, c\<lparr>frame_queue := frame_queue c @ [frame],
                                  frame_id := frame_id c + 1\<rparr>)
                | Some s \<Rightarrow>
                    (case frame_queue c @ [frame] of
                       [] \<Rightarrow> (Blocked, c\<lparr>frame_queue := []\<rparr>)
                     | f # q \<Rightarrow>
                         (Returned,
                          c\<lparr>frame_queue := q,
                            shared_frame :=
                              Some (shared_frame_set f \<lparr>image_id = None, boxes = v\<rparr> s),
                            frame_id := frame_id c + 1\<rparr>)))
           | Decoded json \<Rightarrow>
               (case shared_frame c of
                  None \<Rightarrow>
                    (Returned, c\<lparr>frame_queue := frame_queue c @ [frame],
                                  frame_id := frame_id c + 1\<rparr>)
                | Some s \<Rightarrow>
                    (case frame_queue c @ [frame] of
                       [] \<Rightarrow> (Blocked, c\<lparr>frame_queue := []\<rparr>)
                     | f # q \<Rightarrow>
                         (Returned, c\<lparr>frame_queue := q,
                                       shared_frame := Some (shared_frame_set f json s),
                                       frame_id := frame_id c + 1\<rparr>)))))"

text \<open>
  \<^verbatim>\<open>YoloGRPCClient.detect_local\<close> (yolo\_grpc\_client.py, lines 58-71). No
  \<^verbatim>\<open>try\<close>: a failing call or an undecodable body raises to the caller, after the put.
  The call \<^verbatim>\<open>self.stub.DetectStream\<close> hands over the whole response or raises, so a
  failed read is a failed call. The front of the queue is taken only if the queue is not
  empty, and the counter is not touched.
\<close>

definition detect_local_grpc ::
  "'i Frame \<Rightarrow> 'b reply \<Rightarrow> ('i, 'b) local_client \<Rightarrow> outcome \<times> ('i, 'b) local_client" where
  "detect_local_grpc frame reply c =
     (case frame_image frame of
        None \<Rightarrow> (Returned, c)
      | Some img \<Rightarrow>
          (case reply of
             TransportFailure \<Rightarrow> (Raised RpcError, c\<lparr>frame_queue := frame_queue c @ [frame]\<rparr>)
           | ReadFailure \<Rightarrow> (Raised RpcError, c\<lparr>frame_queue := frame_queue c @ [frame]\<rparr>)
           | InvalidBody \<Rightarrow>
               (Raised JSONDecodeError, c\<lparr>frame_queue := frame_queue c @ [frame]\<rparr>)
           | NotAnObject v \<Rightarrow>
               (case shared_frame c of
                  None \<Rightarrow> (Returned, c\<lparr>frame_queue := frame_queue c @ [frame]\<rparr>)
                | Some s \<Rightarrow>
                    (case frame_queue c @ [frame] of
                       [] \<Rightarrow> (Returned, c\<lparr>frame_queue := []\<rparr>)
                     | f # q \<Rightarrow>
                         (Returned,
                          c\<lparr>frame_queue := q,
                            shared_frame :=
                              Some (shared_frame_set f \<lparr>image_id = None, boxes = v\<rparr> s)\<rparr>)))
           | Decoded json \<Rightarrow>
               (case shared_frame c of
                  None \<Rightarrow> (Returned, c\<lparr>frame_queue := frame_queue c @ [frame]\<rparr>)
                | Some s \<Rightarrow>
                    (case frame_queue c @ [frame] of
                       [] \<Rightarrow> (Returned, c\<lparr>frame_queue := []\<rparr>)
                     | f # q \<Rightarrow>
                         (Returned, c\<lparr>frame_queue := q,
                                       shared_frame := Some (shared_frame_set f json s)\<rparr>)))))"

text \<open>A run of synchronous calls, each with the reply its request gets.\<close>

fun run_local_http ::
  "('i Frame \<times> 'b reply) list \<Rightarrow> ('i, 'b) local_client \<Rightarrow> outcome list \<times> ('i, 'b) local_client" where
  "run_local_http [] c = ([], c)"
| "run_local_http ((frame, reply) # calls) c =
     (case detect_local_http frame reply c of
        (out, c1) \<Rightarrow> (case run_local_http calls c1 of (outs, c2) \<Rightarrow> (out # outs, c2)))"

fun run_local_grpc ::
  "('i Frame \<times> 'b reply) list \<Rightarrow> ('i, 'b) local_client \<Rightarrow> outcome list \<times> ('i, 'b) local_client" where
  "run_local_grpc [] c = ([], c)"
| "run_local_grpc ((frame, reply) # calls) c =
     (case detect_local_grpc frame reply c of
        (out, c1) \<Rightarrow> (case run_local_grpc calls c1 of (outs, c2) \<Rightarrow> (out # outs, c2)))"

section \<open>The asynchronous path: \<^verbatim>\<open>detect\<close>\<close>

subsection \<open>Dispatch\<close>

text \<open>
  The critical section under \<^verbatim>\<open>frame_id_lock\<close> (yolo\_client.py, lines 185-197;
  yolo\_grpc\_client.py, lines 87-90): the envelope \<^verbatim>\<open>(frame_id, frame)\<close> is put on the
  queue, the same id goes into the request, and the counter is incremented. Nothing is
  awaited inside the section, so it is one step. It returns the id sent.
\<close>

definition dispatch :: "'i Frame \<Rightarrow> ('i, 'b) remote_client \<Rightarrow> int \<times> ('i, 'b) remote_client" where
  "dispatch frame c =
     (frame_id c,
      c\<lparr>frame_queue := frame_queue c @ [(frame_id c, frame)], frame_id := frame_id c + 1\<rparr>)"

text \<open>
  The part of \<^verbatim>\<open>detect\<close> before the request is awaited: a frame without image returns
  at once (\<open>None\<close>), any other is dispatched.
\<close>

definition detect_send ::
  "'i Frame \<Rightarrow> ('i, 'b) remote_client \<Rightarrow> int option \<times> ('i, 'b) remote_client" where
  "detect_send frame c =
     (case frame_image frame of
        None \<Rightarrow> (None, c)
      | Some img \<Rightarrow> (case dispatch frame c of (i, c1) \<Rightarrow> (Some i, c1)))"


subsection \<open>Reconciliation in the HTTP client\<close>

text \<open>\<^verbatim>\<open>json_results.get('image_id', -1)\<close>.\<close>

definition get_image_id :: "'b json_results \<Rightarrow> int" where
  "get_image_id json = (case image_id json of None \<Rightarrow> - 1 | Some i \<Rightarrow> i)"

text \<open>
  The loop of yolo\_client.py, lines 214-215:
  \<^verbatim>\<open>while self.frame_queue.queue[0][0] < R: self.frame_queue.get()\<close>.
  The condition indexes the deque before every test, so on an empty queue it raises
  \<^verbatim>\<open>IndexError\<close>. The result is how the loop ends and the queue it leaves.
\<close>

fun discard_old_images_http :: "'i envelope list \<Rightarrow> int \<Rightarrow> outcome \<times> 'i envelope list" where
  "discard_old_images_http [] R = (Raised IndexError, [])"
| "discard_old_images_http (e # q) R =
     (if fst e < R then discard_old_images_http q R else (Returned, e # q))"

text \<open>
  yolo\_client.py, lines 211-221: return on an empty queue; run the loop; return if the
  front id is greater than the result's; otherwise, if a slot is attached, take the front
  envelope off the queue and publish its frame with the result.
\<close>

definition reconcile_http ::
  "'b json_results \<Rightarrow> ('i, 'b) remote_client \<Rightarrow> outcome \<times> ('i, 'b) remote_client" where
  "reconcile_http json c =
     (if frame_queue c = [] then (Returned, c)
      else
        (case discard_old_images_http (frame_queue c) (get_image_id json) of
           (out, q) \<Rightarrow>
             if out \<noteq> Returned then (out, c\<lparr>frame_queue := q\<rparr>)
             else
               (case q of
                  [] \<Rightarrow> (Raised IndexError, c\<lparr>frame_queue := q\<rparr>)
                | e # rest \<Rightarrow>
                    if fst e > get_image_id json then (Returned, c\<lparr>frame_queue := q\<rparr>)
                    else
                      (case shared_frame c of
                         None \<Rightarrow> (Returned, c\<lparr>frame_queue := q\<rparr>)
                       | Some s \<Rightarrow>
                           (Returned,
                            c\<lparr>frame_queue := rest,
                              shared_frame := Some (shared_frame_set (snd e) json s)\<rparr>)))))"

text \<open>
  The part of \<^verbatim>\<open>YoloClient.detect\<close> after the request (lines 199-221).
  \<^verbatim>\<open>get_aiohttp_session_response\<close> is an \<^verbatim>\<open>asynccontextmanager\<close> whose generator
  catches and logs every exception of the request.
  \<^item> When the request fails before the generator has yielded the response, the generator
    ends without yielding, and entering such a context raises \<^verbatim>\<open>RuntimeError\<close> in
    \<^verbatim>\<open>detect\<close>; the test \<^verbatim>\<open>if response is None\<close> is never reached with \<^verbatim>\<open>None\<close>.
  \<^item> When the failure comes after the yield, while \<^verbatim>\<open>response.text()\<close> reads the
    body, the exception is thrown into the generator at its \<^verbatim>\<open>yield\<close> and caught
    there, so the \<^verbatim>\<open>async with\<close> block is left as if it had completed, with
    \<^verbatim>\<open>results\<close> unassigned; \<^verbatim>\<open>json.loads(results)\<close> then raises
    \<^verbatim>\<open>UnboundLocalError\<close>, which \<^verbatim>\<open>except json.JSONDecodeError\<close> does not catch.
  \<^item> A body that is not JSON is caught (\<^verbatim>\<open>except json.JSONDecodeError\<close>), logged, and
    the call returns.
  \<^item> A body that is JSON but not an object passes the decoding. On an empty queue the
    call returns (lines 212-213); otherwise the loop condition calls \<^verbatim>\<open>.get\<close> on the
    value, which raises \<^verbatim>\<open>AttributeError\<close> before anything is popped.
  \<^item> A decoded object is reconciled.
\<close>

definition detect_receive_http ::
  "'b reply \<Rightarrow> ('i, 'b) remote_client \<Rightarrow> outcome \<times> ('i, 'b) remote_client" where
  "detect_receive_http reply c =
     (case reply of
        TransportFailure \<Rightarrow> (Raised RuntimeError, c)
      | ReadFailure \<Rightarrow> (Raised UnboundLocalError, c)
      | InvalidBody \<Rightarrow> (Returned, c)
      | NotAnObject v \<Rightarrow>
          if frame_queue c = [] then (Returned, c) else (Raised AttributeError, c)
      | Decoded json \<Rightarrow> reconcile_http json c)"

subsection \<open>Reconciliation in the gRPC client\<close>

text \<open>
  The loop of yolo\_grpc\_client.py, lines 100-101:
  \<^verbatim>\<open>while not self.frame_queue.empty() and self.frame_queue.queue[0][0] < R\<close>.
\<close>

fun discard_old_images_grpc :: "'i envelope list \<Rightarrow> int \<Rightarrow> 'i envelope list" where
  "discard_old_images_grpc [] R = []"
| "discard_old_images_grpc (e # q) R =
     (if fst e < R then discard_old_images_grpc q R else e # q)"

text \<open>
  yolo\_grpc\_client.py, lines 96-108. The id is read as \<^verbatim>\<open>json_results['image_id']\<close>,
  which raises \<^verbatim>\<open>KeyError\<close> on a payload without the key; it is first evaluated in the
  loop condition, after the test that the queue is not empty.
\<close>

definition reconcile_grpc ::
  "'b json_results \<Rightarrow> ('i, 'b) remote_client \<Rightarrow> outcome \<times> ('i, 'b) remote_client" where
  "reconcile_grpc json c =
     (if frame_queue c = [] then (Returned, c)
      else
        (case image_id json of
           None \<Rightarrow> (Raised KeyError, c)
         | Some R \<Rightarrow>
             (case discard_old_images_grpc (frame_queue c) R of
                [] \<Rightarrow> (Returned, c\<lparr>frame_queue := []\<rparr>)
              | e # rest \<Rightarrow>
                  if fst e > R then (Returned, c\<lparr>frame_queue := e # rest\<rparr>)
                  else
                    (case shared_frame c of
                       None \<Rightarrow> (Returned, c\<lparr>frame_queue := e # rest\<rparr>)
                     | Some s \<Rightarrow>
                         (Returned,
                          c\<lparr>frame_queue := rest,
                            shared_frame := Some (shared_frame_set (snd e) json s)\<rparr>)))))"

text \<open>
  The part of \<^verbatim>\<open>YoloGRPCClient.detect\<close> after the request (lines 93-108): a failed call
  and an undecodable body both raise to the caller. The awaited call hands over the whole
  response or raises, so a failed read is a failed call. A body that is JSON but not an
  object returns on an empty queue (lines 96-97); otherwise the loop condition indexes the
  value with \<^verbatim>\<open>['image_id']\<close>, which raises \<^verbatim>\<open>TypeError\<close> before anything is popped.
\<close>

definition detect_receive_grpc ::
  "'b reply \<Rightarrow> ('i, 'b) remote_client \<Rightarrow> outcome \<times> ('i, 'b) remote_client" where
  "detect_receive_grpc reply c =
     (case reply of
        TransportFailure \<Rightarrow> (Raised RpcError, c)
      | ReadFailure \<Rightarrow> (Raised RpcError, c)
      | InvalidBody \<Rightarrow> (Raised JSONDecodeError, c)
      | NotAnObject v \<Rightarrow>
          if frame_queue c = [] then (Returned, c) else (Raised TypeError, c)
      | Decoded json \<Rightarrow> reconcile_grpc json c)"

subsection \<open>Whole calls and interleaved runs\<close>

text \<open>One call of \<^verbatim>\<open>detect\<close> that nothing else interleaves with.\<close>

definition detect_http ::
  "'i Frame \<Rightarrow> 'b reply \<Rightarrow> ('i, 'b) remote_client \<Rightarrow> outcome \<times> ('i, 'b) remote_client" where
  "detect_http frame reply c =
     (case detect_send frame c of
        (None, c1) \<Rightarrow> (Returned, c1)
      | (Some i, c1) \<Rightarrow> detect_receive_http reply c1)"

definition detect_grpc ::
  "'i Frame \<Rightarrow> 'b reply \<Rightarrow> ('i, 'b) remote_client \<Rightarrow> outcome \<times> ('i, 'b) remote_client" where
  "detect_grpc frame reply c =
     (case detect_send frame c of
        (None, c1) \<Rightarrow> (Returned, c1)
      | (Some i, c1) \<Rightarrow> detect_receive_grpc reply c1)"

text \<open>
  Calls overlap at the awaited request. A run is a sequence of events: a call reaches its
  request (\<open>Call\<close>), or the reply of some outstanding request comes back (\<open>Response\<close>).
  The run collects how the resumed calls end.
\<close>

datatype ('i, 'b) event = Call "'i Frame" | Response "'b reply"

fun run_http ::
  "('i, 'b) event list \<Rightarrow> ('i, 'b) remote_client \<Rightarrow> outcome list \<times> ('i, 'b) remote_client" where
  "run_http [] c = ([], c)"
| "run_http (Call frame # evs) c = run_http evs (snd (detect_send frame c))"
| "run_http (Response reply # evs) c =
     (case detect_receive_http reply c of
        (out, c1) \<Rightarrow> (case run_http evs c1 of (outs, c2) \<Rightarrow> (out # outs, c2)))"

fun run_grpc ::
  "('i, 'b) event list \<Rightarrow> ('i, 'b) remote_client \<Rightarrow> outcome list \<times> ('i, 'b) remote_client" where
  "run_grpc [] c = ([], c)"
| "run_grpc (Call frame # evs) c = run_grpc evs (snd (detect_send frame c))"
| "run_grpc (Response reply # evs) c =
     (case detect_receive_grpc reply c of
        (out, c1) \<Rightarrow> (case run_grpc evs c1 of (outs, c2) \<Rightarrow> (out # outs, c2)))"


section \<open>The pop loop\<close>

lemma discard_old_images_grpc_dropWhile:
  "discard_old_images_grpc q R = dropWhile (\<lambda>e. fst e < R) q"
  by (induction q) auto

lemma discard_old_images_http_dropWhile:
  "snd (discard_old_images_http q R) = dropWhile (\<lambda>e. fst e < R) q"
  by (induction q) auto

lemma discard_old_images_http_outcome:
  "fst (discard_old_images_http q R) =
     (if dropWhile (\<lambda>e. fst e < R) q = [] then Raised IndexError else Returned)"
  by (induction q) auto

lemma discard_old_images_http_eq:
  "discard_old_images_http q R =
     (if dropWhile (\<lambda>e. fst e < R) q = [] then Raised IndexError else Returned,
      dropWhile (\<lambda>e. fst e < R) q)"
  by (simp add: prod_eq_iff discard_old_images_http_dropWhile discard_old_images_http_outcome)

section \<open>Both reconcile steps in closed form\<close>

text \<open>
  The two steps written over the queue that the pop loop leaves, which is the queue from
  its first envelope on whose id is not below the result's.
\<close>

lemma reconcile_http_dropWhile:
  "reconcile_http json c =
     (if frame_queue c = [] then (Returned, c)
      else
        (case dropWhile (\<lambda>e. fst e < get_image_id json) (frame_queue c) of
           [] \<Rightarrow> (Raised IndexError, c\<lparr>frame_queue := []\<rparr>)
         | e # rest \<Rightarrow>
             if fst e > get_image_id json then (Returned, c\<lparr>frame_queue := e # rest\<rparr>)
             else
               (case shared_frame c of
                  None \<Rightarrow> (Returned, c\<lparr>frame_queue := e # rest\<rparr>)
                | Some s \<Rightarrow>
                    (Returned,
                     c\<lparr>frame_queue := rest,
                       shared_frame := Some (shared_frame_set (snd e) json s)\<rparr>))))"
  by (cases "dropWhile (\<lambda>e. fst e < get_image_id json) (frame_queue c)")
    (simp_all add: reconcile_http_def discard_old_images_http_eq del: dropWhile_eq_Nil_conv)

lemma reconcile_grpc_dropWhile:
  "reconcile_grpc json c =
     (if frame_queue c = [] then (Returned, c)
      else
        (case image_id json of
           None \<Rightarrow> (Raised KeyError, c)
         | Some R \<Rightarrow>
        (case dropWhile (\<lambda>e. fst e < R) (frame_queue c) of
           [] \<Rightarrow> (Returned, c\<lparr>frame_queue := []\<rparr>)
         | e # rest \<Rightarrow>
             if fst e > R then (Returned, c\<lparr>frame_queue := e # rest\<rparr>)
             else
               (case shared_frame c of
                  None \<Rightarrow> (Returned, c\<lparr>frame_queue := e # rest\<rparr>)
                | Some s \<Rightarrow>
                    (Returned,
                     c\<lparr>frame_queue := rest,
                       shared_frame := Some (shared_frame_set (snd e) json s)\<rparr>)))))"
  by (simp add: reconcile_grpc_def discard_old_images_grpc_dropWhile split: option.splits)

section \<open>Sequence ids\<close>














section \<open>A result newer than every queued frame\<close>

text \<open>
  On a queue that is not empty and whose ids are all below the result's, the HTTP step
  empties the queue and raises; the gRPC step empties it and returns.
\<close>

lemma purge_all_http:
  assumes "frame_queue c \<noteq> []" and "\<forall>e \<in> set (frame_queue c). fst e < get_image_id json"
  shows "reconcile_http json c = (Raised IndexError, c\<lparr>frame_queue := []\<rparr>)"
proof -
  from assms(2) have "dropWhile (\<lambda>e. fst e < get_image_id json) (frame_queue c) = []"
    by simp
  with assms(1) show ?thesis
    by (simp add: reconcile_http_dropWhile del: dropWhile_eq_Nil_conv)
qed

lemma purge_all_grpc:
  assumes "image_id json = Some R" and "\<forall>e \<in> set (frame_queue c). fst e < R"
  shows "reconcile_grpc json c = (Returned, c\<lparr>frame_queue := []\<rparr>)"
proof -
  from assms(2) have "dropWhile (\<lambda>e. fst e < R) (frame_queue c) = []"
    by simp
  with assms show ?thesis
    by (cases "frame_queue c = []")
      (simp_all add: reconcile_grpc_dropWhile del: dropWhile_eq_Nil_conv)
qed

text \<open>
  C1: when a result arrives whose image id is strictly greater than every queued id, the
  reconcile step pops all envelopes and publishes nothing. The gRPC client then returns,
  leaving the queue empty. The HTTP client does the same pops, but its loop condition reads
  the front of the emptied queue and the step ends with \<^verbatim>\<open>IndexError\<close> instead of
  returning. Shown on the queue that holds the one envelope 0 and a result with id 1.
\<close>

theorem purge_all_http_raises:
  "reconcile_http \<lparr>image_id = Some 1, boxes = b\<rparr>
     \<lparr>frame_queue = [(0, frame)], shared_frame = sf, frame_id = 1\<rparr>
   = (Raised IndexError, \<lparr>frame_queue = [], shared_frame = sf, frame_id = 1\<rparr>)
   \<and> reconcile_grpc \<lparr>image_id = Some 1, boxes = b\<rparr>
     \<lparr>frame_queue = [(0, frame)], shared_frame = sf, frame_id = 1\<rparr>
   = (Returned, \<lparr>frame_queue = [], shared_frame = sf, frame_id = 1\<rparr>)"
  by (simp add: reconcile_http_def reconcile_grpc_def get_image_id_def)

section \<open>Results out of order\<close>

text \<open>
  C5: frames 0 and 1 are dispatched on a fresh client with a slot attached, and the result
  with image id 1 arrives first. The pop loop discards envelope 0, nothing is published for
  it, and envelope 1 is matched: its frame is published with result 1 and the queue is
  empty. When the result with image id 0 arrives afterwards, the queue is empty, so the
  call returns without error and the state (slot included) is what it was. Both clients.
\<close>

theorem out_of_order_scenario:
  "run_http
     [Call \<lparr>frame_image = Some a0\<rparr>, Call \<lparr>frame_image = Some a1\<rparr>]
     (init_client (Some []))
   = ([], \<lparr>frame_queue = [(0, \<lparr>frame_image = Some a0\<rparr>), (1, \<lparr>frame_image = Some a1\<rparr>)],
          shared_frame = Some [], frame_id = 2\<rparr>)
   \<and> discard_old_images_http
       [(0, \<lparr>frame_image = Some a0\<rparr>), (1, \<lparr>frame_image = Some a1\<rparr>)] 1
     = (Returned, [(1, \<lparr>frame_image = Some a1\<rparr>)])
   \<and> run_http
     [Call \<lparr>frame_image = Some a0\<rparr>, Call \<lparr>frame_image = Some a1\<rparr>,
      Response (Decoded \<lparr>image_id = Some 1, boxes = b1\<rparr>)]
     (init_client (Some []))
   = ([Returned],
      \<lparr>frame_queue = [],
       shared_frame = Some [(\<lparr>frame_image = Some a1\<rparr>, \<lparr>image_id = Some 1, boxes = b1\<rparr>)],
       frame_id = 2\<rparr>)
   \<and> run_http
     [Call \<lparr>frame_image = Some a0\<rparr>, Call \<lparr>frame_image = Some a1\<rparr>,
      Response (Decoded \<lparr>image_id = Some 1, boxes = b1\<rparr>),
      Response (Decoded \<lparr>image_id = Some 0, boxes = b0\<rparr>)]
     (init_client (Some []))
   = ([Returned, Returned],
      \<lparr>frame_queue = [],
       shared_frame = Some [(\<lparr>frame_image = Some a1\<rparr>, \<lparr>image_id = Some 1, boxes = b1\<rparr>)],
       frame_id = 2\<rparr>)
   \<and> run_grpc
     [Call \<lparr>frame_image = Some a0\<rparr>, Call \<lparr>frame_image = Some a1\<rparr>,
      Response (Decoded \<lparr>image_id = Some 1, boxes = b1\<rparr>)]
     (init_client (Some []))
   = ([Returned],
      \<lparr>frame_queue = [],
       shared_frame = Some [(\<lparr>frame_image = Some a1\<rparr>, \<lparr>image_id = Some 1, boxes = b1\<rparr>)],
       frame_id = 2\<rparr>)
   \<and> run_grpc
     [Call \<lparr>frame_image = Some a0\<rparr>, Call \<lparr>frame_image = Some a1\<rparr>,
      Response (Decoded \<lparr>image_id = Some 1, boxes = b1\<rparr>),
      Response (Decoded \<lparr>image_id = Some 0, boxes = b0\<rparr>)]
     (init_client (Some []))
   = ([Returned, Returned],
      \<lparr>frame_queue = [],
       shared_frame = Some [(\<lparr>frame_image = Some a1\<rparr>, \<lparr>image_id = Some 1, boxes = b1\<rparr>)],
       frame_id = 2\<rparr>)"
  by (simp add: init_client_def detect_send_def dispatch_def detect_receive_http_def
      detect_receive_grpc_def reconcile_http_def reconcile_grpc_def get_image_id_def
      shared_frame_set_def)

section \<open>What gets published\<close>

text \<open>
  In the asynchronous path a publication always pairs the result with the frame of a
  queued envelope whose id is the result's image id; otherwise the slot is left alone.
\<close>

lemma reconcile_http_publishes_matched:
  assumes "shared_frame c = Some s"
  shows "shared_frame (snd (reconcile_http json c)) = Some s
    \<or> (\<exists>frame. shared_frame (snd (reconcile_http json c)) = Some ((frame, json) # s)
          \<and> (get_image_id json, frame) \<in> set (frame_queue c))"
proof (cases "dropWhile (\<lambda>e. fst e < get_image_id json) (frame_queue c)")
  case Nil
  with assms show ?thesis
    by (simp add: reconcile_http_dropWhile del: dropWhile_eq_Nil_conv)
next
  case (Cons e rest)
  then have "e \<in> set (frame_queue c)" and "\<not> fst e < get_image_id json"
    by (metis list.set_intros(1) set_dropWhileD, metis dropWhile_eq_Cons_conv)
  with assms Cons show ?thesis
    by (cases e) (auto simp add: reconcile_http_dropWhile shared_frame_set_def)
qed

lemma reconcile_grpc_publishes_matched:
  assumes "shared_frame c = Some s"
  shows "shared_frame (snd (reconcile_grpc json c)) = Some s
    \<or> (\<exists>frame R. shared_frame (snd (reconcile_grpc json c)) = Some ((frame, json) # s)
          \<and> image_id json = Some R \<and> (R, frame) \<in> set (frame_queue c))"
proof (cases "image_id json")
  case None
  with assms show ?thesis by (simp add: reconcile_grpc_dropWhile)
next
  case (Some R)
  show ?thesis
  proof (cases "dropWhile (\<lambda>e. fst e < R) (frame_queue c)")
    case Nil
    with assms Some show ?thesis
      by (simp add: reconcile_grpc_dropWhile del: dropWhile_eq_Nil_conv)
  next
    case (Cons e rest)
    then have "e \<in> set (frame_queue c)" and "\<not> fst e < R"
      by (metis list.set_intros(1) set_dropWhileD, metis dropWhile_eq_Cons_conv)
    with assms Some Cons show ?thesis
      by (cases e) (auto simp add: reconcile_grpc_dropWhile shared_frame_set_def)
  qed
qed

text \<open>
  C6: every publication pairs a frame with the result produced for it. The synchronous
  path breaks this once a request has failed: \<^verbatim>\<open>detect_local\<close> puts the frame on the
  queue before the request and publishes the front of the queue after it, and a failed
  request leaves its frame queued. Here the first call (frame \<open>a\<close>) fails and the second
  (frame \<open>b\<close>) succeeds with payload \<open>json\<close>: the slot then holds frame \<open>a\<close> with the
  result of frame \<open>b\<close>, and frame \<open>b\<close> stays queued for the next publication. Both
  clients.
\<close>

theorem local_publishes_stale_frame:
  "run_local_http
     [(\<lparr>frame_image = Some a\<rparr>, TransportFailure),
      (\<lparr>frame_image = Some b\<rparr>, Decoded json)]
     (init_client (Some []))
   = ([Returned, Returned],
      \<lparr>frame_queue = [\<lparr>frame_image = Some b\<rparr>],
       shared_frame = Some [(\<lparr>frame_image = Some a\<rparr>, json)],
       frame_id = 1\<rparr>)
   \<and> run_local_grpc
     [(\<lparr>frame_image = Some a\<rparr>, TransportFailure),
      (\<lparr>frame_image = Some b\<rparr>, Decoded json)]
     (init_client (Some []))
   = ([Raised RpcError, Returned],
      \<lparr>frame_queue = [\<lparr>frame_image = Some b\<rparr>],
       shared_frame = Some [(\<lparr>frame_image = Some a\<rparr>, json)],
       frame_id = 0\<rparr>)"
  by (simp add: init_client_def detect_local_http_def detect_local_grpc_def shared_frame_set_def)

section \<open>The synchronous path and the queue\<close>

text \<open>
  C2, as stated: calls through the synchronous path leave the queue and the counter
  \<^verbatim>\<open>frame_id\<close> unchanged. The HTTP client's \<^verbatim>\<open>detect_local\<close> ends with
  \<^verbatim>\<open>self.frame_id += 1\<close>: one successful call on the fresh client moves the counter from
  0 to 1.
\<close>

theorem local_call_increments_counter:
  "detect_local_http \<lparr>frame_image = Some (7::nat)\<rparr> (Decoded \<lparr>image_id = Some 0, boxes = ()\<rparr>)
     \<lparr>frame_queue = [], shared_frame = Some [], frame_id = 0\<rparr>
   = (Returned,
      \<lparr>frame_queue = [],
       shared_frame = Some [(\<lparr>frame_image = Some 7\<rparr>, \<lparr>image_id = Some 0, boxes = ()\<rparr>)],
       frame_id = 1\<rparr>)"
  by (simp add: detect_local_http_def shared_frame_set_def)

lemma run_local_http_success:
  "run_local_http (map (\<lambda>(img, json). (\<lparr>frame_image = Some img\<rparr>, Decoded json)) calls)
     \<lparr>frame_queue = [], shared_frame = Some s, frame_id = n\<rparr>
   = (replicate (length calls) Returned,
      \<lparr>frame_queue = [],
       shared_frame = Some (rev (map (\<lambda>(img, json). (\<lparr>frame_image = Some img\<rparr>, json)) calls) @ s),
       frame_id = n + int (length calls)\<rparr>)"
proof (induction calls arbitrary: s n)
  case Nil
  show ?case by simp
next
  case (Cons call calls)
  obtain img json where call: "call = (img, json)" by (cases call)
  have step: "detect_local_http \<lparr>frame_image = Some img\<rparr> (Decoded json)
      \<lparr>frame_queue = [], shared_frame = Some s, frame_id = n\<rparr>
    = (Returned, \<lparr>frame_queue = [],
        shared_frame = Some ((\<lparr>frame_image = Some img\<rparr>, json) # s), frame_id = n + 1\<rparr>)"
    by (simp add: detect_local_http_def shared_frame_set_def)
  show ?case
    by (simp add: call step Cons.IH)
qed

lemma run_local_grpc_success:
  "run_local_grpc (map (\<lambda>(img, json). (\<lparr>frame_image = Some img\<rparr>, Decoded json)) calls)
     \<lparr>frame_queue = [], shared_frame = Some s, frame_id = n\<rparr>
   = (replicate (length calls) Returned,
      \<lparr>frame_queue = [],
       shared_frame = Some (rev (map (\<lambda>(img, json). (\<lparr>frame_image = Some img\<rparr>, json)) calls) @ s),
       frame_id = n\<rparr>)"
proof (induction calls arbitrary: s)
  case Nil
  show ?case by simp
next
  case (Cons call calls)
  obtain img json where call: "call = (img, json)" by (cases call)
  have step: "detect_local_grpc \<lparr>frame_image = Some img\<rparr> (Decoded json)
      \<lparr>frame_queue = [], shared_frame = Some s, frame_id = n\<rparr>
    = (Returned, \<lparr>frame_queue = [],
        shared_frame = Some ((\<lparr>frame_image = Some img\<rparr>, json) # s), frame_id = n\<rparr>)"
    by (simp add: detect_local_grpc_def shared_frame_set_def)
  show ?case
    by (simp add: call step Cons.IH)
qed

text \<open>
  C2, amended: take any number N of successful calls through the synchronous path (each
  frame has an image, each request is answered with a payload) on a client with a slot
  attached and an empty queue. Every call returns; each puts its frame on the queue and
  takes it off again for publication, so the queue is empty afterwards and the slot has
  received the N pairs in call order. The gRPC client's counter is unchanged; the HTTP
  client's counter has advanced by exactly N. A call whose frame has no image changes
  nothing in either client.
\<close>

theorem local_calls_effect:
  "run_local_http (map (\<lambda>(img, json). (\<lparr>frame_image = Some img\<rparr>, Decoded json)) calls)
     \<lparr>frame_queue = [], shared_frame = Some s, frame_id = n\<rparr>
   = (replicate (length calls) Returned,
      \<lparr>frame_queue = [],
       shared_frame = Some (rev (map (\<lambda>(img, json). (\<lparr>frame_image = Some img\<rparr>, json)) calls) @ s),
       frame_id = n + int (length calls)\<rparr>)
   \<and> run_local_grpc (map (\<lambda>(img, json). (\<lparr>frame_image = Some img\<rparr>, Decoded json)) calls)
     \<lparr>frame_queue = [], shared_frame = Some s, frame_id = n\<rparr>
   = (replicate (length calls) Returned,
      \<lparr>frame_queue = [],
       shared_frame = Some (rev (map (\<lambda>(img, json). (\<lparr>frame_image = Some img\<rparr>, json)) calls) @ s),
       frame_id = n\<rparr>)
   \<and> detect_local_http \<lparr>frame_image = None\<rparr> reply c = (Returned, c)
   \<and> detect_local_grpc \<lparr>frame_image = None\<rparr> reply c = (Returned, c)"
  by (simp add: run_local_http_success run_local_grpc_success detect_local_http_def
      detect_local_grpc_def)

section \<open>A match with and without a slot\<close>

text \<open>
  C4, as stated: when the front envelope after the pop loop has the result's id, it is
  popped whether or not a slot is attached. In both clients the pop is the argument of the
  publication, inside \<^verbatim>\<open>if self.shared_frame is not None\<close>: with no slot attached the
  matching envelope stays at the front of the queue.
\<close>

theorem match_without_slot_keeps_envelope:
  "reconcile_http \<lparr>image_id = Some 0, boxes = ()\<rparr>
     \<lparr>frame_queue = [(0, \<lparr>frame_image = Some (7::nat)\<rparr>)], shared_frame = None, frame_id = 1\<rparr>
   = (Returned,
      \<lparr>frame_queue = [(0, \<lparr>frame_image = Some 7\<rparr>)], shared_frame = None, frame_id = 1\<rparr>)
   \<and> reconcile_grpc \<lparr>image_id = Some 0, boxes = ()\<rparr>
     \<lparr>frame_queue = [(0, \<lparr>frame_image = Some (7::nat)\<rparr>)], shared_frame = None, frame_id = 1\<rparr>
   = (Returned,
      \<lparr>frame_queue = [(0, \<lparr>frame_image = Some 7\<rparr>)], shared_frame = None, frame_id = 1\<rparr>)"
  by (simp add: reconcile_http_def reconcile_grpc_def get_image_id_def)

text \<open>
  C4, amended: when the front envelope after the pop loop has the result's id, then, in
  both clients, the older envelopes are gone and the call returns; if a slot is attached
  the matching envelope is popped and its frame is published with the result; if no slot
  is attached nothing is published and the matching envelope stays at the front of the
  queue.
\<close>

theorem match_pops_iff_slot:
  assumes "discard_old_images_http (frame_queue c) R = (Returned, (R, frame) # rest)"
    and "image_id json = Some R"
  shows "discard_old_images_grpc (frame_queue c) R = (R, frame) # rest
    \<and> (case shared_frame c of
         Some s \<Rightarrow>
           reconcile_http json c
             = (Returned, c\<lparr>frame_queue := rest, shared_frame := Some ((frame, json) # s)\<rparr>)
           \<and> reconcile_grpc json c
             = (Returned, c\<lparr>frame_queue := rest, shared_frame := Some ((frame, json) # s)\<rparr>)
       | None \<Rightarrow>
           reconcile_http json c = (Returned, c\<lparr>frame_queue := (R, frame) # rest\<rparr>)
           \<and> reconcile_grpc json c = (Returned, c\<lparr>frame_queue := (R, frame) # rest\<rparr>))"
proof -
  from assms(1) have dw: "dropWhile (\<lambda>e. fst e < R) (frame_queue c) = (R, frame) # rest"
    by (metis discard_old_images_http_dropWhile snd_conv)
  then have ne: "frame_queue c \<noteq> []" by auto
  from assms(2) have R: "get_image_id json = R" by (simp add: get_image_id_def)
  from dw ne R assms(2) show ?thesis
    by (simp add: discard_old_images_grpc_dropWhile reconcile_http_dropWhile
        reconcile_grpc_dropWhile shared_frame_set_def split: option.splits)
qed

theorem match_pops_iff_slot_witness:
  "reconcile_http \<lparr>image_id = Some 1, boxes = ()\<rparr>
     \<lparr>frame_queue = [(0, \<lparr>frame_image = Some (7::nat)\<rparr>), (1, \<lparr>frame_image = Some 8\<rparr>),
                     (2, \<lparr>frame_image = Some 9\<rparr>)],
      shared_frame = Some [], frame_id = 3\<rparr>
   = (Returned,
      \<lparr>frame_queue = [(2, \<lparr>frame_image = Some 9\<rparr>)],
       shared_frame = Some [(\<lparr>frame_image = Some 8\<rparr>, \<lparr>image_id = Some 1, boxes = ()\<rparr>)],
       frame_id = 3\<rparr>)"
  using match_pops_iff_slot
    [of "\<lparr>frame_queue = [(0, \<lparr>frame_image = Some (7::nat)\<rparr>), (1, \<lparr>frame_image = Some 8\<rparr>),
                          (2, \<lparr>frame_image = Some 9\<rparr>)],
          shared_frame = Some [], frame_id = 3\<rparr>"
        1 "\<lparr>frame_image = Some 8\<rparr>" "[(2, \<lparr>frame_image = Some 9\<rparr>)]"
        "\<lparr>image_id = Some 1, boxes = ()\<rparr>"]
  by simp

section \<open>Failed requests\<close>

lemma dropWhile_ascending:
  "sorted_wrt (<) (map fst q) \<Longrightarrow>
     set (dropWhile (\<lambda>e. fst e < (R::int)) q) = {e \<in> set q. \<not> fst e < R}"
  by (induction q) auto

lemma reconcile_http_queue_cases:
  "frame_queue (snd (reconcile_http json c))
     = dropWhile (\<lambda>e. fst e < get_image_id json) (frame_queue c)
   \<or> (\<exists>h. dropWhile (\<lambda>e. fst e < get_image_id json) (frame_queue c)
             = h # frame_queue (snd (reconcile_http json c))
          \<and> fst h = get_image_id json)"
proof (cases "dropWhile (\<lambda>e. fst e < get_image_id json) (frame_queue c)")
  case Nil
  then show ?thesis
    by (cases "frame_queue c = []")
      (simp_all add: reconcile_http_dropWhile del: dropWhile_eq_Nil_conv)
next
  case (Cons h rest)
  then have "\<not> fst h < get_image_id json"
    by (metis dropWhile_eq_Cons_conv)
  with Cons show ?thesis
    by (cases "frame_queue c = []")
      (auto simp add: reconcile_http_dropWhile split: option.splits)
qed

text \<open>
  C7: a request that fails removes nothing from the queue. The failure itself, whether it
  comes before the response is there or while its body is read, leaves the client state
  as it is, so after a call whose request failed the envelope that the call enqueued is
  still the last of the queue. From then on, for an envelope \<open>e\<close> of a queue
  in ascending id order and a result whose image id is not the id of \<open>e\<close> (the result of
  a failed request never arrives), the reconcile step removes \<open>e\<close> exactly when the
  result's id is strictly higher, and exactly when the pop loop discards it.
\<close>

theorem failed_send_keeps_envelope:
  assumes "frame_image frame = Some img"
    and "e \<in> set (frame_queue c')"
    and "fst e \<noteq> get_image_id json"
    and "sorted_wrt (<) (map fst (frame_queue c'))"
  shows "detect_receive_http TransportFailure c = (Raised RuntimeError, c)
    \<and> detect_http frame TransportFailure c
        = (Raised RuntimeError,
           c\<lparr>frame_queue := frame_queue c @ [(frame_id c, frame)], frame_id := frame_id c + 1\<rparr>)
    \<and> (e \<in> set (frame_queue (snd (reconcile_http json c'))) \<longleftrightarrow> \<not> fst e < get_image_id json)
    \<and> (e \<in> set (frame_queue (snd (reconcile_http json c')))
          \<longleftrightarrow> e \<in> set (snd (discard_old_images_http (frame_queue c') (get_image_id json))))
    \<and> detect_receive_http ReadFailure c = (Raised UnboundLocalError, c)
    \<and> detect_http frame ReadFailure c
        = (Raised UnboundLocalError,
           c\<lparr>frame_queue := frame_queue c @ [(frame_id c, frame)], frame_id := frame_id c + 1\<rparr>)"
proof -
  let ?R = "get_image_id json"
  let ?dw = "dropWhile (\<lambda>e. fst e < ?R) (frame_queue c')"
  let ?q' = "frame_queue (snd (reconcile_http json c'))"
  have a: "detect_receive_http TransportFailure c = (Raised RuntimeError, c)"
    by (simp add: detect_receive_http_def)
  from assms(1) have b: "detect_http frame TransportFailure c
        = (Raised RuntimeError,
           c\<lparr>frame_queue := frame_queue c @ [(frame_id c, frame)], frame_id := frame_id c + 1\<rparr>)"
    by (simp add: detect_http_def detect_send_def dispatch_def detect_receive_http_def)
  have same: "e \<in> set ?q' \<longleftrightarrow> e \<in> set ?dw"
  proof -
    consider "?q' = ?dw" | h where "?dw = h # ?q'" and "fst h = ?R"
      using reconcile_http_queue_cases [of json c'] by blast
    then show ?thesis
    proof cases
      case 1
      then show ?thesis by simp
    next
      case 2
      with assms(3) have "e \<noteq> h" by auto
      with 2 show ?thesis by simp
    qed
  qed
  have a': "detect_receive_http ReadFailure c = (Raised UnboundLocalError, c)"
    by (simp add: detect_receive_http_def)
  from assms(1) have b': "detect_http frame ReadFailure c
        = (Raised UnboundLocalError,
           c\<lparr>frame_queue := frame_queue c @ [(frame_id c, frame)], frame_id := frame_id c + 1\<rparr>)"
    by (simp add: detect_http_def detect_send_def dispatch_def detect_receive_http_def)
  from assms(2,4) have "e \<in> set ?dw \<longleftrightarrow> \<not> fst e < ?R"
    by (simp add: dropWhile_ascending)
  with a b a' b' same show ?thesis
    by (simp add: discard_old_images_http_dropWhile)
qed

theorem failed_send_keeps_envelope_witness:
  "detect_http \<lparr>frame_image = Some (7::nat)\<rparr> (TransportFailure :: unit reply) (init_client None)
     = (Raised RuntimeError,
        \<lparr>frame_queue = [(0, \<lparr>frame_image = Some 7\<rparr>)], shared_frame = None, frame_id = 1\<rparr>)
   \<and> (0, \<lparr>frame_image = Some (7::nat)\<rparr>) \<notin> set (frame_queue (snd (reconcile_http
        \<lparr>image_id = Some 1, boxes = ()\<rparr>
        \<lparr>frame_queue = [(0, \<lparr>frame_image = Some 7\<rparr>), (1, \<lparr>frame_image = Some 8\<rparr>)],
         shared_frame = Some [], frame_id = 2\<rparr>)))"
  using failed_send_keeps_envelope
    [of "\<lparr>frame_image = Some (7::nat)\<rparr>" 7 "(0, \<lparr>frame_image = Some (7::nat)\<rparr>)"
        "\<lparr>frame_queue = [(0, \<lparr>frame_image = Some 7\<rparr>), (1, \<lparr>frame_image = Some 8\<rparr>)],
          shared_frame = Some [], frame_id = 2\<rparr>"
        "\<lparr>image_id = Some 1, boxes = ()\<rparr>" "init_client None :: (nat, unit) remote_client"]
  by (simp add: get_image_id_def init_client_def)

text \<open>
  C8, as stated: every transport or decode error is reported to the caller of the call
  that hit it. In \<^verbatim>\<open>YoloClient.detect\<close> a body that is not JSON is caught and logged,
  and the call returns as a call without error does; in \<^verbatim>\<open>detect_local\<close> every
  exception is caught and logged the same way. Both are explicit \<^verbatim>\<open>except\<close> clauses.
\<close>

theorem decode_error_not_reported:
  "detect_http \<lparr>frame_image = Some (7::nat)\<rparr> (InvalidBody :: unit reply) (init_client None)
     = (Returned,
        \<lparr>frame_queue = [(0, \<lparr>frame_image = Some 7\<rparr>)], shared_frame = None, frame_id = 1\<rparr>)
   \<and> fst (detect_local_http \<lparr>frame_image = Some (7::nat)\<rparr> (TransportFailure :: unit reply)
        (init_client None)) = Returned
   \<and> fst (detect_local_http \<lparr>frame_image = Some (7::nat)\<rparr> (InvalidBody :: unit reply)
        (init_client None)) = Returned"
  by (simp add: detect_http_def detect_send_def dispatch_def detect_receive_http_def
      detect_local_http_def init_client_def)

text \<open>
  C8, amended: whenever a call of \<^verbatim>\<open>YoloClient.detect\<close> hits a transport error (the
  request fails, before the response is there or while its body is read) or a decode error
  (the body is not JSON, or is JSON but not an object), the client state (queue, counter,
  slot) stays exactly as it was when the reply came, so the rest of any run, and with it
  every other call in flight, goes on as if that reply had never come. A body that is not
  JSON is caught and logged and the call returns normally, so that error is not reported.
  A body that is JSON but not an object is raised to the caller of that call when the
  queue is not empty, and is dropped with a normal return when the queue is empty. By
  which exception a failed request leaves the call is not stated here. In
  \<^verbatim>\<open>detect_local\<close> a failed request and a body that is not JSON are caught and logged,
  the call returns normally, and counter and slot are unchanged.
\<close>

theorem errors_scoped_to_call:
  "snd (detect_receive_http TransportFailure c) = c
   \<and> snd (detect_receive_http ReadFailure c) = c
   \<and> detect_receive_http InvalidBody c = (Returned, c)
   \<and> detect_receive_http (NotAnObject v) c
       = (if frame_queue c = [] then Returned else Raised AttributeError, c)
   \<and> run_http (Response TransportFailure # evs) c
       = (fst (detect_receive_http TransportFailure c) # fst (run_http evs c),
          snd (run_http evs c))
   \<and> run_http (Response ReadFailure # evs) c
       = (fst (detect_receive_http ReadFailure c) # fst (run_http evs c),
          snd (run_http evs c))
   \<and> run_http (Response InvalidBody # evs) c
       = (Returned # fst (run_http evs c), snd (run_http evs c))
   \<and> run_http (Response (NotAnObject v) # evs) c
       = ((if frame_queue c = [] then Returned else Raised AttributeError)
            # fst (run_http evs c),
          snd (run_http evs c))
   \<and> fst (detect_local_http frame TransportFailure d) = Returned
   \<and> fst (detect_local_http frame ReadFailure d) = Returned
   \<and> fst (detect_local_http frame InvalidBody d) = Returned
   \<and> frame_id (snd (detect_local_http frame TransportFailure d)) = frame_id d
   \<and> frame_id (snd (detect_local_http frame ReadFailure d)) = frame_id d
   \<and> frame_id (snd (detect_local_http frame InvalidBody d)) = frame_id d
   \<and> shared_frame (snd (detect_local_http frame TransportFailure d)) = shared_frame d
   \<and> shared_frame (snd (detect_local_http frame ReadFailure d)) = shared_frame d
   \<and> shared_frame (snd (detect_local_http frame InvalidBody d)) = shared_frame d"
  by (cases "frame_image frame")
    (simp_all add: detect_receive_http_def detect_local_http_def split_beta)

section \<open>The two clients compared\<close>

text \<open>
  C9, as stated: for every queue and every received result the two reconcile steps decide
  alike. On a payload without the key \<^verbatim>\<open>'image_id'\<close> and a queue that is not empty,
  the HTTP client reads the id -1 and returns, discarding the result, while the gRPC
  client raises \<^verbatim>\<open>KeyError\<close>.
\<close>

theorem missing_image_id_differs:
  "reconcile_http \<lparr>image_id = None, boxes = ()\<rparr>
     \<lparr>frame_queue = [(0, \<lparr>frame_image = Some (7::nat)\<rparr>)], shared_frame = Some [], frame_id = 1\<rparr>
   = (Returned,
      \<lparr>frame_queue = [(0, \<lparr>frame_image = Some 7\<rparr>)], shared_frame = Some [], frame_id = 1\<rparr>)
   \<and> reconcile_grpc \<lparr>image_id = None, boxes = ()\<rparr>
     \<lparr>frame_queue = [(0, \<lparr>frame_image = Some (7::nat)\<rparr>)], shared_frame = Some [], frame_id = 1\<rparr>
   = (Raised KeyError,
      \<lparr>frame_queue = [(0, \<lparr>frame_image = Some 7\<rparr>)], shared_frame = Some [], frame_id = 1\<rparr>)"
  by (simp add: reconcile_http_def reconcile_grpc_def get_image_id_def)

text \<open>
  C9, amended: for every queue and every result that carries an image id, the two
  reconcile steps leave the same client state: the same envelopes are removed and the same
  publication, if any, is made. Whenever the queue is empty or holds an envelope whose id
  is not below the result's, the two steps also end alike.
\<close>

theorem reconcile_http_grpc_agree:
  assumes "image_id json = Some R"
  shows "snd (reconcile_http json c) = snd (reconcile_grpc json c)
    \<and> ((frame_queue c = [] \<or> (\<exists>e \<in> set (frame_queue c). R \<le> fst e))
         \<longrightarrow> reconcile_http json c = reconcile_grpc json c)"
proof -
  from assms have R: "get_image_id json = R" by (simp add: get_image_id_def)
  show ?thesis
  proof (cases "dropWhile (\<lambda>e. fst e < R) (frame_queue c)")
    case Nil
    then have "\<forall>e \<in> set (frame_queue c). fst e < R" by simp
    then have none: "\<not> (\<exists>e \<in> set (frame_queue c). R \<le> fst e)" by auto
    from Nil assms R have "snd (reconcile_http json c) = snd (reconcile_grpc json c)"
      by (cases "frame_queue c = []")
        (simp_all add: reconcile_http_dropWhile reconcile_grpc_dropWhile
          del: dropWhile_eq_Nil_conv)
    moreover from assms R have "frame_queue c = [] \<longrightarrow> reconcile_http json c = reconcile_grpc json c"
      by (simp add: reconcile_http_def reconcile_grpc_def)
    ultimately show ?thesis using none by blast
  next
    case (Cons h rest)
    with assms R have "reconcile_http json c = reconcile_grpc json c"
      by (simp add: reconcile_http_dropWhile reconcile_grpc_dropWhile)
    then show ?thesis by simp
  qed
qed

theorem reconcile_http_grpc_agree_witness:
  "reconcile_http \<lparr>image_id = Some 1, boxes = ()\<rparr>
     \<lparr>frame_queue = [(0, \<lparr>frame_image = Some (7::nat)\<rparr>), (1, \<lparr>frame_image = Some 8\<rparr>)],
      shared_frame = Some [], frame_id = 2\<rparr>
   = reconcile_grpc \<lparr>image_id = Some 1, boxes = ()\<rparr>
     \<lparr>frame_queue = [(0, \<lparr>frame_image = Some (7::nat)\<rparr>), (1, \<lparr>frame_image = Some 8\<rparr>)],
      shared_frame = Some [], frame_id = 2\<rparr>"
  using reconcile_http_grpc_agree
    [of "\<lparr>image_id = Some 1, boxes = ()\<rparr>" 1
        "\<lparr>frame_queue = [(0, \<lparr>frame_image = Some (7::nat)\<rparr>), (1, \<lparr>frame_image = Some 8\<rparr>)],
          shared_frame = Some [], frame_id = 2\<rparr>"]
  by simp

section \<open>A payload without image id\<close>

text \<open>
  C10: in the HTTP client's reconcile step a payload without the key \<^verbatim>\<open>'image_id'\<close> is
  read as id -1. On a queue that is not empty and whose ids are all at least 0, the pop
  loop removes nothing, the step returns through the branch for a greater front id, and
  the client state (queue, slot, counter) is what it was.
\<close>

theorem missing_image_id_discarded_http:
  assumes "frame_queue c \<noteq> []"
    and "\<forall>e \<in> set (frame_queue c). 0 \<le> fst e"
    and "image_id json = None"
  shows "get_image_id json = - 1
    \<and> discard_old_images_http (frame_queue c) (get_image_id json) = (Returned, frame_queue c)
    \<and> (\<exists>e rest. frame_queue c = e # rest \<and> fst e > get_image_id json)
    \<and> reconcile_http json c = (Returned, c)"
proof -
  from assms(1) obtain e rest where q: "frame_queue c = e # rest"
    by (cases "frame_queue c") auto
  from assms(2) q have e: "0 \<le> fst e" by simp
  from assms(3) have R: "get_image_id json = - 1" by (simp add: get_image_id_def)
  from q e R have loop:
    "discard_old_images_http (frame_queue c) (get_image_id json) = (Returned, frame_queue c)"
    by simp
  from q e R loop have "reconcile_http json c = (Returned, c)"
    by (simp add: reconcile_http_def)
  with q e R loop show ?thesis by simp
qed

theorem missing_image_id_discarded_http_witness:
  "reconcile_http \<lparr>image_id = None, boxes = ()\<rparr>
     \<lparr>frame_queue = [(0, \<lparr>frame_image = Some (7::nat)\<rparr>), (1, \<lparr>frame_image = Some 8\<rparr>)],
      shared_frame = Some [], frame_id = 2\<rparr>
   = (Returned,
     \<lparr>frame_queue = [(0, \<lparr>frame_image = Some (7::nat)\<rparr>), (1, \<lparr>frame_image = Some 8\<rparr>)],
      shared_frame = Some [], frame_id = 2\<rparr>)"
  using missing_image_id_discarded_http
    [of "\<lparr>frame_queue = [(0, \<lparr>frame_image = Some (7::nat)\<rparr>), (1, \<lparr>frame_image = Some 8\<rparr>)],
          shared_frame = Some [], frame_id = 2\<rparr>"
        "\<lparr>image_id = None, boxes = ()\<rparr>"]
  by simp

end
